theory Spec2Isabelle
  imports Main
begin

section \<open>The room timer handlers of study-room\<close>

text \<open>
  The socket timer handler keeps one timer per room: \<open>handleStartTimer\<close>,
  \<open>handlePauseTimer\<close>, \<open>handleResetTimer\<close>, \<open>handleChangeTimerMode\<close> and
  \<open>handleTimerCompleted\<close> load the room, check that the requester is the host, change
  the room's \<open>timerState\<close> in memory, save the room and broadcast the new state.
  \<open>calculateCurrentTimerState\<close> derives the remaining time of a running timer.

  Each handler is a function from the clock, the requester, the rooms of the database and
  the request's data to the rooms afterwards and the list of events emitted, in order.
\<close>

subsection \<open>Numbers\<close>

text \<open>
  A JavaScript number is an integer (seconds, or a count) or \<open>NaN\<close>: \<open>Math.max(0, undefined)\<close>
  is \<open>NaN\<close>, and the handlers can reach it. Fractions and infinities are left out, and the
  integers are taken below \<open>2^53\<close>, where the arithmetic of doubles is exact.
  A value that may be \<open>undefined\<close> is an option, \<open>None\<close> being \<open>undefined\<close>.
\<close>

datatype jsnum = Num int | NaN

type_synonym jsval = "jsnum option"

text \<open>\<open>ToNumber\<close>: \<open>undefined\<close> becomes \<open>NaN\<close>.\<close>

fun to_number :: "jsval \<Rightarrow> jsnum" where
  "to_number None = NaN"
| "to_number (Some x) = x"

text \<open>Truthiness: \<open>undefined\<close>, \<open>NaN\<close> and \<open>0\<close> are falsy.\<close>

fun truthy :: "jsval \<Rightarrow> bool" where
  "truthy None = False"
| "truthy (Some NaN) = False"
| "truthy (Some (Num n)) = (n \<noteq> 0)"

text \<open>\<open>a || b\<close> is \<open>a\<close> when \<open>a\<close> is truthy and \<open>b\<close> otherwise.\<close>

definition js_or :: "jsval \<Rightarrow> jsval \<Rightarrow> jsval" where
  "js_or a b = (if truthy a then a else b)"

text \<open>\<open>Math.max\<close> and \<open>Math.min\<close> of two numbers, and \<open>x - n\<close>: \<open>NaN\<close> is contagious.\<close>

fun math_max :: "jsnum \<Rightarrow> jsnum \<Rightarrow> jsnum" where
  "math_max (Num a) (Num b) = Num (max a b)"
| "math_max _ _ = NaN"

fun math_min :: "jsnum \<Rightarrow> jsnum \<Rightarrow> jsnum" where
  "math_min (Num a) (Num b) = Num (min a b)"
| "math_min _ _ = NaN"

fun js_sub :: "jsnum \<Rightarrow> int \<Rightarrow> jsnum" where
  "js_sub (Num a) n = Num (a - n)"
| "js_sub NaN n = NaN"

subsection \<open>Rooms and timer states\<close>

text \<open>
  The room document and its nested timer state, with the fields the handlers read and
  write. A date is its time value in milliseconds, \<open>None\<close> is \<open>null\<close>. A date object is
  truthy whatever its time value, so \<open>!timerState.startedAt\<close> holds exactly for \<open>None\<close>.
  Identities are compared after \<open>toString()\<close>, so they are strings.
\<close>

record timerState =
  mode :: string
  timeRemaining :: jsnum
  isRunning :: bool
  startedAt :: "int option"
  pausedAt :: "int option"
  cycleCount :: nat

record timerSettings =
  focusDuration :: "int option"
  shortBreakDuration :: "int option"
  longBreakDuration :: "int option"

record room =
  host :: string
  timerState :: timerState
  timerSettings :: "timerSettings option"

type_synonym store = "string \<rightharpoonup> room"

text \<open>
  What one invocation of a handler sees besides the database: the identity of the socket's
  user, the clock, and whether \<open>room.save()\<close> resolves. \<open>now\<close> is the \<open>new Date()\<close> of
  the handler's own body; \<open>reconciledAt\<close> is the earlier \<open>new Date()\<close> inside
  \<open>calculateCurrentTimerState\<close> when \<open>handlePauseTimer\<close> calls it.
\<close>

record env =
  userId :: string
  now :: int
  reconciledAt :: int
  saveOk :: bool

text \<open>
  The events a handler emits: \<open>socket.emit('error', {message})\<close> to the requester alone,
  and \<open>io.to(roomId).emit(eventName, payload)\<close> to the room.
\<close>

datatype payload =
  TimerPayload timerState
| CompletedPayload string string nat timerState

datatype emitted =
  ToSocket string string
| ToRoom string string payload

fun payloadState :: "payload \<Rightarrow> timerState" where
  "payloadState (TimerPayload ts) = ts"
| "payloadState (CompletedPayload completedMode suggestedNextMode n ts) = ts"

type_synonym outcome = "store \<times> emitted list"

subsection \<open>Elapsed time\<close>

text \<open>
  \<open>calculateCurrentTimerState\<close>, with the clock it reads as a parameter.
  \<open>Math.floor((now - startedAt) / 1000)\<close> is the floor division of integers.
\<close>

definition calculateCurrentTimerState :: "int \<Rightarrow> timerState \<Rightarrow> timerState" where
  "calculateCurrentTimerState clock ts =
     (case (isRunning ts, startedAt ts) of
        (True, Some started) \<Rightarrow>
          (let elapsedSeconds = (clock - started) div 1000;
               currentTimeRemaining = math_max (Num 0) (js_sub (timeRemaining ts) elapsedSeconds)
           in ts\<lparr>timeRemaining := currentTimeRemaining\<rparr>)
      | _ \<Rightarrow> ts)"

subsection \<open>The host check\<close>

definition isUserHost :: "room \<Rightarrow> string \<Rightarrow> bool" where
  "isUserHost r uid = (host r = uid)"

subsection \<open>Saving and broadcasting\<close>

text \<open>
  The end of every handler: \<open>await room.save()\<close>, then the broadcast to the room. When the
  save rejects, the \<open>catch\<close> block reports the failure to the requester, nothing is stored
  and nothing is broadcast.
\<close>

definition saveAndBroadcast ::
  "env \<Rightarrow> store \<Rightarrow> string \<Rightarrow> room \<Rightarrow> string \<Rightarrow> emitted \<Rightarrow> outcome" where
  "saveAndBroadcast e db roomId r failure ev =
     (if saveOk e then (db(roomId \<mapsto> r), [ev])
      else (db, [ToSocket ''error'' failure]))"

subsection \<open>Durations\<close>

text \<open>\<open>room.timerSettings?.focusDuration || 25 * 60\<close> and its two siblings.\<close>

definition orDefault :: "int option \<Rightarrow> int \<Rightarrow> int" where
  "orDefault x d = (case x of None \<Rightarrow> d | Some n \<Rightarrow> if n = 0 then d else n)"

definition timeByMode :: "timerSettings option \<Rightarrow> (string \<times> int) list" where
  "timeByMode settings =
     [(''focus'', orDefault (Option.bind settings focusDuration) (25 * 60)),
      (''shortBreak'', orDefault (Option.bind settings shortBreakDuration) (5 * 60)),
      (''longBreak'', orDefault (Option.bind settings longBreakDuration) (15 * 60))]"

definition validModes :: "string list" where
  "validModes = [''focus'', ''shortBreak'', ''longBreak'']"

subsection \<open>The five handlers\<close>

definition handleStartTimer :: "env \<Rightarrow> store \<Rightarrow> string \<Rightarrow> outcome" where
  "handleStartTimer e db roomId =
     (case db roomId of
        None \<Rightarrow> (db, [ToSocket ''error'' ''Room not found''])
      | Some r \<Rightarrow>
          if \<not> isUserHost r (userId e)
          then (db, [ToSocket ''error'' ''Only host can control timer''])
          else
            (let ts = (timerState r)\<lparr>isRunning := True, startedAt := Some (now e)\<rparr>
             in saveAndBroadcast e db roomId (r\<lparr>timerState := ts\<rparr>) ''Failed to start timer''
                  (ToRoom roomId ''timer-started'' (TimerPayload ts))))"

definition handlePauseTimer :: "env \<Rightarrow> store \<Rightarrow> string \<Rightarrow> int option \<Rightarrow> outcome" where
  "handlePauseTimer e db roomId suggested =
     (case db roomId of
        None \<Rightarrow> (db, [ToSocket ''error'' ''Room not found''])
      | Some r \<Rightarrow>
          if \<not> isUserHost r (userId e)
          then (db, [ToSocket ''error'' ''Only host can control timer''])
          else
            (let ts0 = timerState r;
                 given = map_option Num suggested;
                 currentTimeRemaining =
                   (case (isRunning ts0, startedAt ts0) of
                      (True, Some started) \<Rightarrow>
                        (let currentTimerState = calculateCurrentTimerState (reconciledAt e) ts0
                         in Some (math_min (to_number (js_or given (Some (timeRemaining ts0))))
                                           (timeRemaining currentTimerState)))
                    | _ \<Rightarrow> given);
                 ts = ts0\<lparr>isRunning := False,
                          timeRemaining := math_max (Num 0) (to_number currentTimeRemaining),
                          pausedAt := Some (now e),
                          startedAt := None\<rparr>
             in saveAndBroadcast e db roomId (r\<lparr>timerState := ts\<rparr>) ''Failed to pause timer''
                  (ToRoom roomId ''timer-paused'' (TimerPayload ts))))"

definition handleResetTimer :: "env \<Rightarrow> store \<Rightarrow> string \<Rightarrow> outcome" where
  "handleResetTimer e db roomId =
     (case db roomId of
        None \<Rightarrow> (db, [ToSocket ''error'' ''Room not found''])
      | Some r \<Rightarrow>
          if \<not> isUserHost r (userId e)
          then (db, [ToSocket ''error'' ''Only host can control timer''])
          else
            (let table = timeByMode (timerSettings r);
                 ts0 = timerState r;
                 ts = ts0\<lparr>timeRemaining :=
                            to_number (js_or (map_option Num (map_of table (mode ts0)))
                                             (map_option Num (map_of table ''focus''))),
                          isRunning := False,
                          startedAt := None,
                          pausedAt := None\<rparr>
             in saveAndBroadcast e db roomId (r\<lparr>timerState := ts\<rparr>) ''Failed to reset timer''
                  (ToRoom roomId ''timer-reset'' (TimerPayload ts))))"

text \<open>
  \<open>handleChangeTimerMode\<close> assigns the new mode first (line 189) and tests
  \<open>room.timerState.mode === 'focus'\<close> afterwards (line 203): the test reads the mode it
  has just written.
\<close>

definition handleChangeTimerMode :: "env \<Rightarrow> store \<Rightarrow> string \<Rightarrow> string \<Rightarrow> outcome" where
  "handleChangeTimerMode e db roomId newMode =
     (case db roomId of
        None \<Rightarrow> (db, [ToSocket ''error'' ''Room not found''])
      | Some r \<Rightarrow>
          if \<not> isUserHost r (userId e)
          then (db, [ToSocket ''error'' ''Only host can control timer''])
          else if newMode \<notin> set validModes
          then (db, [ToSocket ''error'' ''Invalid timer mode''])
          else
            (let ts1 = (timerState r)\<lparr>mode := newMode,
                                       isRunning := False,
                                       startedAt := None,
                                       pausedAt := None\<rparr>;
                 table = timeByMode (timerSettings r);
                 ts2 = ts1\<lparr>timeRemaining := to_number (map_option Num (map_of table newMode))\<rparr>;
                 ts = (if newMode \<noteq> ''focus'' \<and> mode ts2 = ''focus''
                       then ts2\<lparr>cycleCount := cycleCount ts2 + 1\<rparr> else ts2)
             in saveAndBroadcast e db roomId (r\<lparr>timerState := ts\<rparr>) ''Failed to change timer mode''
                  (ToRoom roomId ''timer-mode-changed'' (TimerPayload ts))))"

text \<open>
  \<open>handleTimerCompleted\<close> picks the suggestion from \<open>cycleCount % 4\<close> (line 246) and
  increments the count after that (line 247).
\<close>

definition handleTimerCompleted :: "env \<Rightarrow> store \<Rightarrow> string \<Rightarrow> outcome" where
  "handleTimerCompleted e db roomId =
     (case db roomId of
        None \<Rightarrow> (db, [ToSocket ''error'' ''Room not found''])
      | Some r \<Rightarrow>
          if \<not> isUserHost r (userId e)
          then (db, [ToSocket ''error'' ''Only host can control timer''])
          else
            (let ts1 = (timerState r)\<lparr>isRunning := False,
                                       timeRemaining := Num 0,
                                       startedAt := None,
                                       pausedAt := None\<rparr>;
                 (suggestedNextMode, ts) =
                   (if mode ts1 = ''focus''
                    then (if cycleCount ts1 mod 4 = 3 then ''longBreak'' else ''shortBreak'',
                          ts1\<lparr>cycleCount := cycleCount ts1 + 1\<rparr>)
                    else (''focus'', ts1))
             in saveAndBroadcast e db roomId (r\<lparr>timerState := ts\<rparr>) ''Failed to complete timer''
                  (ToRoom roomId ''timer-completed''
                     (CompletedPayload (mode ts) suggestedNextMode (cycleCount ts) ts))))"

text \<open>The five operations as one request type, each sent to its handler.\<close>

datatype operation =
  Start
| Pause "int option"
| Reset
| ChangeMode string
| Complete

fun dispatch :: "env \<Rightarrow> store \<Rightarrow> string \<Rightarrow> operation \<Rightarrow> outcome" where
  "dispatch e db roomId Start = handleStartTimer e db roomId"
| "dispatch e db roomId (Pause suggested) = handlePauseTimer e db roomId suggested"
| "dispatch e db roomId Reset = handleResetTimer e db roomId"
| "dispatch e db roomId (ChangeMode newMode) = handleChangeTimerMode e db roomId newMode"
| "dispatch e db roomId Complete = handleTimerCompleted e db roomId"

subsection \<open>The spec's reading of Pause\<close>

text \<open>
  The remaining time after Pause on a running timer in the words of the specification: the
  minimum of the client's value (the stored one when none was supplied) and the reconciled
  value, floored at 0. It is compared with \<open>handlePauseTimer\<close> below.
\<close>

definition specPauseRemaining :: "int \<Rightarrow> int \<Rightarrow> int option \<Rightarrow> int" where
  "specPauseRemaining stored elapsed suggested =
     max 0 (min (case suggested of None \<Rightarrow> stored | Some c \<Rightarrow> c) (max 0 (stored - elapsed)))"

subsection \<open>A sample room\<close>

text \<open>
  A room hosted by \<open>alice\<close> with no custom durations, holding a given timer state, and
  requests made at clock \<open>t\<close> by \<open>alice\<close> and by \<open>bob\<close>.
\<close>

definition sampleState :: "string \<Rightarrow> int \<Rightarrow> bool \<Rightarrow> int option \<Rightarrow> nat \<Rightarrow> timerState" where
  "sampleState m secs running started n =
     \<lparr>mode = m, timeRemaining = Num secs, isRunning = running, startedAt = started,
      pausedAt = None, cycleCount = n\<rparr>"

definition sampleRoom :: "timerState \<Rightarrow> room" where
  "sampleRoom ts = \<lparr>host = ''alice'', timerState = ts, timerSettings = None\<rparr>"

definition sampleStore :: "timerState \<Rightarrow> store" where
  "sampleStore ts = [''r1'' \<mapsto> sampleRoom ts]"

definition asAlice :: "int \<Rightarrow> env" where
  "asAlice t = \<lparr>userId = ''alice'', now = t, reconciledAt = t, saveOk = True\<rparr>"

definition asBob :: "int \<Rightarrow> env" where
  "asBob t = \<lparr>userId = ''bob'', now = t, reconciledAt = t, saveOk = True\<rparr>"

text \<open>
  A request that passes the handler's own validation: only \<open>handleChangeTimerMode\<close>
  checks its data.
\<close>

fun validRequest :: "operation \<Rightarrow> bool" where
  "validRequest (ChangeMode newMode) = (newMode \<in> set validModes)"
| "validRequest _ = True"

text \<open>The timer state stored for a room after a handler has run, if the room exists.\<close>

definition stateAfter :: "outcome \<Rightarrow> string \<Rightarrow> timerState option" where
  "stateAfter out roomId = map_option timerState (fst out roomId)"

section \<open>Properties\<close>

lemmas handler_defs = handleStartTimer_def handlePauseTimer_def handleResetTimer_def
  handleChangeTimerMode_def handleTimerCompleted_def saveAndBroadcast_def isUserHost_def
  stateAfter_def Let_def

lemmas duration_defs = timeByMode_def validModes_def orDefault_def js_or_def

lemmas sample_defs = sampleState_def sampleRoom_def sampleStore_def asAlice_def asBob_def

subsection \<open>Every accepted request is saved and broadcast\<close>

text \<open>
  A valid request of the host on an existing room, with a save that resolves, ends in
  exactly one broadcast to the room and no message to the requester.
\<close>

lemma dispatch_broadcasts:
  assumes "db roomId = Some r" and "isUserHost r (userId e)" and "saveOk e"
    and "validRequest op"
  shows "\<exists>name p. snd (dispatch e db roomId op) = [ToRoom roomId name p]"
  using assms by (cases op) (simp_all add: handler_defs split: prod.splits)

subsection \<open>Change Mode and the cycle count\<close>

text \<open>
  \<open>handleChangeTimerMode\<close> never changes \<open>cycleCount\<close>: by the time it compares the
  stored mode with \<open>'focus'\<close>, the stored mode is the requested one, and the test
  \<open>mode !== 'focus' && room.timerState.mode === 'focus'\<close> cannot hold.
\<close>

lemma handleChangeTimerMode_cycleCount:
  assumes "db roomId = Some r"
  shows "map_option cycleCount (stateAfter (handleChangeTimerMode e db roomId newMode) roomId)
           = Some (cycleCount (timerState r))"
  using assms by (simp add: handler_defs)

text \<open>
  C1. Change Mode should increment \<open>cycleCount\<close> by one exactly when the requested mode is
  not focus and the mode before the change was focus. The handler does not: the host's
  change from focus to shortBreak, on a room whose count is 0, is saved and broadcast with
  the new mode, the short break's 300 seconds, and the count still 0.
\<close>

theorem changeMode_focus_to_shortBreak_keeps_count:
  "handleChangeTimerMode (asAlice 5000)
      (sampleStore (sampleState ''focus'' 1500 False None 0)) ''r1'' ''shortBreak''
   = (sampleStore (sampleState ''shortBreak'' 300 False None 0),
      [ToRoom ''r1'' ''timer-mode-changed''
         (TimerPayload (sampleState ''shortBreak'' 300 False None 0))])"
  by (simp add: handler_defs sample_defs duration_defs)

subsection \<open>Complete and the suggested mode\<close>

text \<open>
  C2, as the handler has it. Complete by the host on an existing room stops the timer and
  leaves the mode. When the mode is focus, the suggestion is longBreak if the count
  \<^emph>\<open>before\<close> the increment is 3 modulo 4 (that is, if the incremented count is a multiple
  of 4) and shortBreak otherwise, and the count is incremented by one. When the mode is
  not focus, the suggestion is focus and the count is unchanged.
\<close>

theorem complete_suggestion:
  assumes "db roomId = Some r" and "isUserHost r (userId e)" and "saveOk e"
  shows "\<exists>suggestedNextMode ts.
           handleTimerCompleted e db roomId =
             (db(roomId \<mapsto> r\<lparr>timerState := ts\<rparr>),
              [ToRoom roomId ''timer-completed''
                 (CompletedPayload (mode (timerState r)) suggestedNextMode (cycleCount ts) ts)])
         \<and> mode ts = mode (timerState r)
         \<and> (if mode (timerState r) = ''focus''
            then cycleCount ts = cycleCount (timerState r) + 1
               \<and> suggestedNextMode =
                   (if cycleCount (timerState r) mod 4 = 3 then ''longBreak'' else ''shortBreak'')
               \<and> (suggestedNextMode = ''longBreak'' \<longleftrightarrow> cycleCount ts mod 4 = 0)
            else cycleCount ts = cycleCount (timerState r) \<and> suggestedNextMode = ''focus'')"
  using assms by (auto simp add: handler_defs split: if_splits) presburger+

text \<open>
  The theorem at a focus timer whose count is 3: the count becomes 4 and the suggestion is
  longBreak.
\<close>

theorem complete_suggestion_witness:
  "sampleStore (sampleState ''focus'' 0 True (Some 0) 3) ''r1''
     = Some (sampleRoom (sampleState ''focus'' 0 True (Some 0) 3))
   \<and> isUserHost (sampleRoom (sampleState ''focus'' 0 True (Some 0) 3)) (userId (asAlice 5000))
   \<and> saveOk (asAlice 5000)
   \<and> snd (handleTimerCompleted (asAlice 5000)
            (sampleStore (sampleState ''focus'' 0 True (Some 0) 3)) ''r1'')
     = [ToRoom ''r1'' ''timer-completed''
          (CompletedPayload ''focus'' ''longBreak'' 4 (sampleState ''focus'' 0 False None 4))]"
proof -
  let ?ts = "sampleState ''focus'' 0 True (Some 0) 3"
  have h1: "sampleStore ?ts ''r1'' = Some (sampleRoom ?ts)"
    by (simp add: sample_defs)
  have h2: "isUserHost (sampleRoom ?ts) (userId (asAlice 5000))"
    by (simp add: sample_defs isUserHost_def)
  have h3: "saveOk (asAlice 5000)"
    by (simp add: sample_defs)
  from complete_suggestion [of "sampleStore ?ts" "''r1''" "sampleRoom ?ts" "asAlice 5000",
      OF h1 h2 h3]
  obtain s ts where
    out: "handleTimerCompleted (asAlice 5000) (sampleStore ?ts) ''r1'' =
            ((sampleStore ?ts)(''r1'' \<mapsto> (sampleRoom ?ts)\<lparr>timerState := ts\<rparr>),
             [ToRoom ''r1'' ''timer-completed''
                (CompletedPayload (mode (timerState (sampleRoom ?ts))) s (cycleCount ts) ts)])"
    and s: "s = ''longBreak''" and n: "cycleCount ts = 4"
    by (auto simp add: sample_defs split: if_splits)
  have "ts = sampleState ''focus'' 0 False None 4"
    using out by (simp add: handler_defs sample_defs)
  with out s n h1 h2 h3 show ?thesis
    by (simp add: sample_defs)
qed

text \<open>
  The scenario of C2 as it is stated: a focus timer whose count is 2. The count becomes 3,
  and the suggestion is shortBreak, not longBreak.
\<close>

theorem complete_count2_counterexample:
  "snd (handleTimerCompleted (asAlice 5000)
          (sampleStore (sampleState ''focus'' 0 True (Some 0) 2)) ''r1'')
     = [ToRoom ''r1'' ''timer-completed''
          (CompletedPayload ''focus'' ''shortBreak'' 3 (sampleState ''focus'' 0 False None 3))]
   \<and> ''shortBreak'' \<noteq> ''longBreak''"
  by (simp add: handler_defs sample_defs)

subsection \<open>The elapsed-time calculation\<close>

lemma reconcile_running:
  assumes "isRunning ts" and "startedAt ts = Some started" and "timeRemaining ts = Num t"
  shows "calculateCurrentTimerState clock ts
         = ts\<lparr>timeRemaining := Num (max 0 (t - (clock - started) div 1000))\<rparr>"
  using assms by (simp add: calculateCurrentTimerState_def)

lemma reconcile_stopped:
  assumes "\<not> isRunning ts"
  shows "calculateCurrentTimerState clock ts = ts"
  using assms by (simp add: calculateCurrentTimerState_def split: option.splits)

lemma timeRemaining_update_eq:
  "(ts\<lparr>timeRemaining := Num a\<rparr> = ts\<lparr>timeRemaining := Num b\<rparr>) \<longleftrightarrow> a = b"
  by (cases ts) simp

text \<open>
  C9, as the function has it. For a running timer with a start date and a stored number
  of seconds, the result is the same state with \<open>timeRemaining\<close> replaced by
  \<open>max(0, timeRemaining - floor((now - startedAt) / 1000))\<close>, which is never negative;
  for a timer that is not running the result is the state itself. The function is a
  function of the clock and the state alone, so it changes nothing and returns the same
  result for the same state and clock. Applied to its own result at the same clock
  (\<open>now \<ge> startedAt\<close>) it subtracts the elapsed seconds again: the second result is the
  first exactly when the elapsed whole seconds are 0 or the first result is already 0.
\<close>

theorem reconcile_contract:
  "(isRunning ts \<and> startedAt ts = Some started \<and> timeRemaining ts = Num t \<longrightarrow>
      calculateCurrentTimerState clock ts
        = ts\<lparr>timeRemaining := Num (max 0 (t - (clock - started) div 1000))\<rparr>
      \<and> 0 \<le> max 0 (t - (clock - started) div 1000))
   \<and> (\<not> isRunning ts \<longrightarrow> calculateCurrentTimerState clock ts = ts)
   \<and> (isRunning ts \<and> startedAt ts = Some started \<and> timeRemaining ts = Num t
        \<and> started \<le> clock \<longrightarrow>
        (calculateCurrentTimerState clock (calculateCurrentTimerState clock ts)
           = calculateCurrentTimerState clock ts
         \<longleftrightarrow> (clock - started) div 1000 = 0 \<or> t \<le> (clock - started) div 1000))"
proof (intro conjI impI)
  assume a: "isRunning ts \<and> startedAt ts = Some started \<and> timeRemaining ts = Num t"
  then show "calculateCurrentTimerState clock ts
        = ts\<lparr>timeRemaining := Num (max 0 (t - (clock - started) div 1000))\<rparr>"
    by (simp add: reconcile_running)
  show "0 \<le> max 0 (t - (clock - started) div 1000)" by simp
next
  assume "\<not> isRunning ts"
  then show "calculateCurrentTimerState clock ts = ts" by (rule reconcile_stopped)
next
  assume a: "isRunning ts \<and> startedAt ts = Some started \<and> timeRemaining ts = Num t
    \<and> started \<le> clock"
  define el where "el = (clock - started) div 1000"
  have el: "0 \<le> el"
    using a by (simp add: el_def pos_imp_zdiv_nonneg_iff)
  have once: "calculateCurrentTimerState clock ts = ts\<lparr>timeRemaining := Num (max 0 (t - el))\<rparr>"
    using a by (simp add: reconcile_running el_def)
  have twice: "calculateCurrentTimerState clock (ts\<lparr>timeRemaining := Num (max 0 (t - el))\<rparr>)
        = ts\<lparr>timeRemaining := Num (max 0 (max 0 (t - el) - el))\<rparr>"
    using a by (simp add: calculateCurrentTimerState_def el_def)
  have "(ts\<lparr>timeRemaining := Num (max 0 (max 0 (t - el) - el))\<rparr>
          = ts\<lparr>timeRemaining := Num (max 0 (t - el))\<rparr>)
        \<longleftrightarrow> max 0 (max 0 (t - el) - el) = max 0 (t - el)"
    by (rule timeRemaining_update_eq)
  also have "\<dots> \<longleftrightarrow> el = 0 \<or> t \<le> el"
    using el by auto
  finally show "calculateCurrentTimerState clock (calculateCurrentTimerState clock ts)
           = calculateCurrentTimerState clock ts
         \<longleftrightarrow> (clock - started) div 1000 = 0 \<or> t \<le> (clock - started) div 1000"
    using once twice by (simp add: el_def)
qed

text \<open>
  The theorem at a running timer with 100 seconds stored and started at clock 0: 70 seconds
  remain at clock 30000, and at clock 100000 the result is 0 and stays 0 when the function
  is applied again; and at a stopped timer, which is returned as it is.
\<close>

theorem reconcile_contract_witness:
  "isRunning (sampleState ''focus'' 100 True (Some 0) 0)
   \<and> startedAt (sampleState ''focus'' 100 True (Some 0) 0) = Some 0
   \<and> timeRemaining (sampleState ''focus'' 100 True (Some 0) 0) = Num 100
   \<and> (0::int) \<le> 100000
   \<and> calculateCurrentTimerState 30000 (sampleState ''focus'' 100 True (Some 0) 0)
       = sampleState ''focus'' 70 True (Some 0) 0
   \<and> calculateCurrentTimerState 100000
        (calculateCurrentTimerState 100000 (sampleState ''focus'' 100 True (Some 0) 0))
       = calculateCurrentTimerState 100000 (sampleState ''focus'' 100 True (Some 0) 0)
   \<and> \<not> isRunning (sampleState ''focus'' 100 False None 0)
   \<and> calculateCurrentTimerState 30000 (sampleState ''focus'' 100 False None 0)
       = sampleState ''focus'' 100 False None 0"
proof -
  let ?run = "sampleState ''focus'' 100 True (Some 0) 0"
  let ?stop = "sampleState ''focus'' 100 False None 0"
  have r: "isRunning ?run \<and> startedAt ?run = Some 0 \<and> timeRemaining ?run = Num 100"
    by (simp add: sample_defs)
  have s: "\<not> isRunning ?stop"
    by (simp add: sample_defs)
  have "calculateCurrentTimerState 30000 ?run = ?run\<lparr>timeRemaining := Num 70\<rparr>"
    using r reconcile_contract [of ?run 0 100 30000, THEN conjunct1] by simp
  then have a: "calculateCurrentTimerState 30000 ?run = sampleState ''focus'' 70 True (Some 0) 0"
    by (simp add: sample_defs)
  have "isRunning ?run \<and> startedAt ?run = Some 0 \<and> timeRemaining ?run = Num 100
      \<and> (0::int) \<le> 100000"
    using r by simp
  with reconcile_contract [of ?run 0 100 100000, THEN conjunct2, THEN conjunct2]
  have b: "calculateCurrentTimerState 100000 (calculateCurrentTimerState 100000 ?run)
        = calculateCurrentTimerState 100000 ?run"
    by simp
  have c: "calculateCurrentTimerState 30000 ?stop = ?stop"
    using s reconcile_contract [of ?stop 0 100 30000, THEN conjunct2, THEN conjunct1] by simp
  from r s a b c show ?thesis by simp
qed

text \<open>
  C9 as it is stated fails for idempotence: at clock 30000 the running timer above is
  reconciled to 70 seconds, and reconciling that result at the same clock gives 40.
\<close>

theorem reconcile_twice_counterexample:
  "calculateCurrentTimerState 30000
     (calculateCurrentTimerState 30000 (sampleState ''focus'' 100 True (Some 0) 0))
   \<noteq> calculateCurrentTimerState 30000 (sampleState ''focus'' 100 True (Some 0) 0)"
  by (simp add: calculateCurrentTimerState_def sample_defs)

subsection \<open>Pause\<close>

text \<open>
  On a running timer with a stored number of seconds, Pause by the host stores what the
  specification says for every suggestion but 0: the minimum of the client's value (the
  stored one when none was supplied) and the reconciled value, floored at 0.
\<close>

lemma pause_running_agrees_unless_zero:
  assumes "db roomId = Some r" and "isUserHost r (userId e)" and "saveOk e"
    and "isRunning (timerState r)" and "startedAt (timerState r) = Some started"
    and "timeRemaining (timerState r) = Num stored"
    and "suggested \<noteq> Some 0"
  shows "map_option timeRemaining (stateAfter (handlePauseTimer e db roomId suggested) roomId)
         = Some (Num (specPauseRemaining stored ((reconciledAt e - started) div 1000) suggested))"
  using assms
  by (cases suggested)
     (simp_all add: handler_defs duration_defs calculateCurrentTimerState_def
        specPauseRemaining_def)

text \<open>
  The specification's example: 100 seconds stored, started 30 seconds before, the client
  suggests 80, and 70 is stored.
\<close>

lemma pause_suggestion_80_stores_70:
  "map_option timeRemaining
     (stateAfter (handlePauseTimer (asAlice 30000)
        (sampleStore (sampleState ''focus'' 100 True (Some 0) 0)) ''r1'' (Some 80)) ''r1'')
   = Some (Num 70)"
  by (simp add: handler_defs sample_defs duration_defs calculateCurrentTimerState_def)

text \<open>
  On a timer that is not running the handler takes the client's value as it is, and a
  supplied 0 is stored as 0.
\<close>

lemma pause_stopped_zero_suggestion_stores_0:
  "map_option timeRemaining
     (stateAfter (handlePauseTimer (asAlice 30000)
        (sampleStore (sampleState ''focus'' 100 False None 0)) ''r1'' (Some 0)) ''r1'')
   = Some (Num 0)"
  by (simp add: handler_defs sample_defs)

text \<open>
  C3. Pause on a running timer should store the minimum of the client's value (the stored
  one if none was supplied) and the reconciled value, floored at 0. The handler does not
  when the client supplies 0: \<open>currentTimeRemaining || room.timerState.timeRemaining\<close>
  takes the supplied 0 for an absent value and puts the stored one in its place. With 100
  seconds stored and 30 elapsed, a suggestion of 0 stores 70, where the minimum of 0 and
  the reconciled 70 is 0.
\<close>

theorem pause_zero_suggestion_stores_70:
  "map_option timeRemaining
     (stateAfter (handlePauseTimer (asAlice 30000)
        (sampleStore (sampleState ''focus'' 100 True (Some 0) 0)) ''r1'' (Some 0)) ''r1'')
     = Some (Num 70)
   \<and> specPauseRemaining 100 ((30000 - 0) div 1000) (Some 0) = 0"
  by (simp add: handler_defs sample_defs duration_defs calculateCurrentTimerState_def
      specPauseRemaining_def)

text \<open>
  C10. On a running timer (with a stored value that is not negative) a suggestion of 0 is
  treated as if it were absent: the request has the outcome of a Pause with no
  suggestion, and the result is the minimum of the stored and the reconciled value, not
  the 0 that was suggested. No suggested number of seconds, 0 or more, forces the
  remaining time to 0: whenever such a suggestion ends in 0, so does a Pause with no
  suggestion.
\<close>

theorem pause_zero_suggestion_ignored:
  assumes "db roomId = Some r" and "isUserHost r (userId e)" and "saveOk e"
    and "isRunning (timerState r)" and "startedAt (timerState r) = Some started"
    and "timeRemaining (timerState r) = Num stored" and "0 \<le> stored"
  shows "handlePauseTimer e db roomId (Some 0) = handlePauseTimer e db roomId None
       \<and> map_option timeRemaining (stateAfter (handlePauseTimer e db roomId (Some 0)) roomId)
         = Some (Num (min stored (max 0 (stored - (reconciledAt e - started) div 1000))))
       \<and> (0 \<le> c
           \<and> map_option timeRemaining (stateAfter (handlePauseTimer e db roomId (Some c)) roomId)
             = Some (Num 0)
           \<longrightarrow> map_option timeRemaining (stateAfter (handlePauseTimer e db roomId None) roomId)
             = Some (Num 0))"
  using assms
  by (auto simp add: handler_defs duration_defs calculateCurrentTimerState_def
      split: if_splits)

text \<open>
  The theorem at 100 seconds stored. With 30 seconds elapsed a suggestion of 0 stores 70,
  as no suggestion does. With 100 seconds elapsed a suggestion of 50 stores 0, and so does
  no suggestion.
\<close>

theorem pause_zero_suggestion_ignored_witness:
  "sampleStore (sampleState ''focus'' 100 True (Some 0) 0) ''r1''
     = Some (sampleRoom (sampleState ''focus'' 100 True (Some 0) 0))
   \<and> isUserHost (sampleRoom (sampleState ''focus'' 100 True (Some 0) 0)) (userId (asAlice 30000))
   \<and> saveOk (asAlice 30000)
   \<and> isRunning (timerState (sampleRoom (sampleState ''focus'' 100 True (Some 0) 0)))
   \<and> startedAt (timerState (sampleRoom (sampleState ''focus'' 100 True (Some 0) 0))) = Some 0
   \<and> timeRemaining (timerState (sampleRoom (sampleState ''focus'' 100 True (Some 0) 0))) = Num 100
   \<and> (0::int) \<le> 100
   \<and> handlePauseTimer (asAlice 30000)
        (sampleStore (sampleState ''focus'' 100 True (Some 0) 0)) ''r1'' (Some 0)
     = handlePauseTimer (asAlice 30000)
        (sampleStore (sampleState ''focus'' 100 True (Some 0) 0)) ''r1'' None
   \<and> map_option timeRemaining
       (stateAfter (handlePauseTimer (asAlice 30000)
          (sampleStore (sampleState ''focus'' 100 True (Some 0) 0)) ''r1'' (Some 0)) ''r1'')
     = Some (Num 70)
   \<and> isUserHost (sampleRoom (sampleState ''focus'' 100 True (Some 0) 0)) (userId (asAlice 100000))
   \<and> saveOk (asAlice 100000)
   \<and> (0::int) \<le> 50
   \<and> map_option timeRemaining
       (stateAfter (handlePauseTimer (asAlice 100000)
          (sampleStore (sampleState ''focus'' 100 True (Some 0) 0)) ''r1'' (Some 50)) ''r1'')
     = Some (Num 0)
   \<and> map_option timeRemaining
       (stateAfter (handlePauseTimer (asAlice 100000)
          (sampleStore (sampleState ''focus'' 100 True (Some 0) 0)) ''r1'' None) ''r1'')
     = Some (Num 0)"
proof -
  let ?ts = "sampleState ''focus'' 100 True (Some 0) 0"
  have h1: "sampleStore ?ts ''r1'' = Some (sampleRoom ?ts)"
    by (simp add: sample_defs)
  have h2: "isUserHost (sampleRoom ?ts) (userId (asAlice 30000))"
    by (simp add: sample_defs isUserHost_def)
  have h3: "saveOk (asAlice 30000)"
    by (simp add: sample_defs)
  have h4: "isRunning (timerState (sampleRoom ?ts))"
    by (simp add: sample_defs)
  have h5: "startedAt (timerState (sampleRoom ?ts)) = Some 0"
    by (simp add: sample_defs)
  have h6: "timeRemaining (timerState (sampleRoom ?ts)) = Num 100"
    by (simp add: sample_defs)
  have h7: "(0::int) \<le> 100"
    by simp
  have t: "reconciledAt (asAlice 30000) = 30000"
    by (simp add: sample_defs)
  note early = pause_zero_suggestion_ignored [of "sampleStore ?ts" "''r1''" "sampleRoom ?ts"
      "asAlice 30000" 0 100 50, OF h1 h2 h3 h4 h5 h6 h7]
  have a: "handlePauseTimer (asAlice 30000) (sampleStore ?ts) ''r1'' (Some 0)
        = handlePauseTimer (asAlice 30000) (sampleStore ?ts) ''r1'' None"
    using early by (rule conjunct1)
  have b: "map_option timeRemaining
         (stateAfter (handlePauseTimer (asAlice 30000) (sampleStore ?ts) ''r1'' (Some 0)) ''r1'')
        = Some (Num 70)"
    using early [THEN conjunct2, THEN conjunct1] t by simp
  have g2: "isUserHost (sampleRoom ?ts) (userId (asAlice 100000))"
    by (simp add: sample_defs isUserHost_def)
  have g3: "saveOk (asAlice 100000)"
    by (simp add: sample_defs)
  have g8: "(0::int) \<le> 50"
    by simp
  have g9: "map_option timeRemaining
         (stateAfter (handlePauseTimer (asAlice 100000) (sampleStore ?ts) ''r1'' (Some 50)) ''r1'')
        = Some (Num 0)"
    by (simp add: handler_defs sample_defs duration_defs calculateCurrentTimerState_def)
  note late = pause_zero_suggestion_ignored [of "sampleStore ?ts" "''r1''" "sampleRoom ?ts"
      "asAlice 100000" 0 100 50, OF h1 g2 g3 h4 h5 h6 h7]
  have c: "map_option timeRemaining
         (stateAfter (handlePauseTimer (asAlice 100000) (sampleStore ?ts) ''r1'' None) ''r1'')
        = Some (Num 0)"
    using late [THEN conjunct2, THEN conjunct2] g8 g9 by blast
  from h1 h2 h3 h4 h5 h6 a b g2 g3 g9 c show ?thesis by simp
qed

text \<open>
  What Pause by the host stores, for a stored number of seconds: \<open>NaN\<close> exactly when the
  client supplied no value and the timer is not running (or has no start date), and a
  non-negative number in every other case.
\<close>

lemma pause_remaining_cases:
  assumes "db roomId = Some r" and "isUserHost r (userId e)" and "saveOk e"
    and "timeRemaining (timerState r) = Num stored"
  shows "\<exists>ts. stateAfter (handlePauseTimer e db roomId suggested) roomId = Some ts
           \<and> (if suggested = None \<and> (\<not> isRunning (timerState r) \<or> startedAt (timerState r) = None)
               then timeRemaining ts = NaN
               else \<exists>n. 0 \<le> n \<and> timeRemaining ts = Num n)"
  using assms
  by (cases suggested; cases "startedAt (timerState r)"; cases "isRunning (timerState r)")
     (simp_all add: handler_defs duration_defs calculateCurrentTimerState_def)

text \<open>
  C4. After every successful operation the stored \<open>timeRemaining\<close> should be a
  non-negative integer, also after Pause on a timer that is not running with no value
  from the client. There the handler keeps \<open>currentTimeRemaining = undefined\<close> (only
  the branch for a running timer falls back on the stored value), and
  \<open>Math.max(0, undefined)\<close> is \<open>NaN\<close>: the request of the host is saved and broadcast
  with \<open>timeRemaining = NaN\<close>.
\<close>

theorem pause_stopped_without_suggestion_NaN:
  "handlePauseTimer (asAlice 30000)
        (sampleStore (sampleState ''focus'' 100 False None 0)) ''r1'' None
   = (sampleStore ((sampleState ''focus'' 100 False None 0)
                     \<lparr>timeRemaining := NaN, pausedAt := Some 30000\<rparr>),
      [ToRoom ''r1'' ''timer-paused''
         (TimerPayload ((sampleState ''focus'' 100 False None 0)
                          \<lparr>timeRemaining := NaN, pausedAt := Some 30000\<rparr>))])"
  by (simp add: handler_defs sample_defs)

subsection \<open>Start\<close>

text \<open>
  C8. Start by the host on an existing room (save succeeds) stores and broadcasts the
  state with \<open>isRunning = true\<close> and \<open>startedAt = now\<close>, and with \<open>timeRemaining\<close>,
  \<open>mode\<close>, \<open>pausedAt\<close> and \<open>cycleCount\<close> as they were, whether or not the timer was
  running. The time elapsed since an earlier start is discarded: reconciled at the new
  start date, the new state has the stored remaining time (floored at 0).
\<close>

theorem start_frame:
  assumes "db roomId = Some r" and "isUserHost r (userId e)" and "saveOk e"
  shows "\<exists>ts. handleStartTimer e db roomId =
                (db(roomId \<mapsto> r\<lparr>timerState := ts\<rparr>),
                 [ToRoom roomId ''timer-started'' (TimerPayload ts)])
            \<and> isRunning ts \<and> startedAt ts = Some (now e)
            \<and> timeRemaining ts = timeRemaining (timerState r)
            \<and> mode ts = mode (timerState r)
            \<and> pausedAt ts = pausedAt (timerState r)
            \<and> cycleCount ts = cycleCount (timerState r)
            \<and> calculateCurrentTimerState (now e) ts
                = ts\<lparr>timeRemaining := math_max (Num 0) (timeRemaining (timerState r))\<rparr>"
  using assms
  by (cases "timeRemaining (timerState r)")
     (simp_all add: handler_defs calculateCurrentTimerState_def)

text \<open>
  The theorem at a timer that has been running for 30 seconds with 100 seconds stored:
  started again at clock 30000, it still has 100 seconds stored, now counted from 30000.
\<close>

theorem start_frame_witness:
  "sampleStore (sampleState ''focus'' 100 True (Some 0) 2) ''r1''
     = Some (sampleRoom (sampleState ''focus'' 100 True (Some 0) 2))
   \<and> isUserHost (sampleRoom (sampleState ''focus'' 100 True (Some 0) 2)) (userId (asAlice 30000))
   \<and> saveOk (asAlice 30000)
   \<and> handleStartTimer (asAlice 30000) (sampleStore (sampleState ''focus'' 100 True (Some 0) 2)) ''r1''
     = (sampleStore (sampleState ''focus'' 100 True (Some 30000) 2),
        [ToRoom ''r1'' ''timer-started''
           (TimerPayload (sampleState ''focus'' 100 True (Some 30000) 2))])"
proof -
  let ?ts = "sampleState ''focus'' 100 True (Some 0) 2"
  have h1: "sampleStore ?ts ''r1'' = Some (sampleRoom ?ts)"
    by (simp add: sample_defs)
  have h2: "isUserHost (sampleRoom ?ts) (userId (asAlice 30000))"
    by (simp add: sample_defs isUserHost_def)
  have h3: "saveOk (asAlice 30000)"
    by (simp add: sample_defs)
  from start_frame [of "sampleStore ?ts" "''r1''" "sampleRoom ?ts" "asAlice 30000", OF h1 h2 h3]
  obtain ts where
    out: "handleStartTimer (asAlice 30000) (sampleStore ?ts) ''r1'' =
            ((sampleStore ?ts)(''r1'' \<mapsto> (sampleRoom ?ts)\<lparr>timerState := ts\<rparr>),
             [ToRoom ''r1'' ''timer-started'' (TimerPayload ts)])"
    and f: "isRunning ts" "startedAt ts = Some (now (asAlice 30000))"
      "timeRemaining ts = timeRemaining (timerState (sampleRoom ?ts))"
      "mode ts = mode (timerState (sampleRoom ?ts))"
      "pausedAt ts = pausedAt (timerState (sampleRoom ?ts))"
      "cycleCount ts = cycleCount (timerState (sampleRoom ?ts))"
    by blast
  from f have "ts = sampleState ''focus'' 100 True (Some 30000) 2"
    by (cases ts) (simp add: sample_defs)
  with out h1 h2 h3 show ?thesis
    by (simp add: sample_defs)
qed

subsection \<open>The two rejections\<close>

text \<open>
  C6. Whatever the operation, a request on an existing room by someone who is not its host
  leaves the database as it was and emits one event only: the error
  \<open>Only host can control timer\<close>, to the requester. Nothing is broadcast to the room.
\<close>

theorem non_host_rejected:
  assumes "db roomId = Some r" and "\<not> isUserHost r (userId e)"
  shows "dispatch e db roomId op = (db, [ToSocket ''error'' ''Only host can control timer''])"
  using assms by (cases op) (simp_all add: handler_defs)

text \<open>The theorem at a Reset that \<open>bob\<close> sends for the room of \<open>alice\<close>.\<close>

theorem non_host_rejected_witness:
  "sampleStore (sampleState ''focus'' 100 True (Some 0) 2) ''r1''
     = Some (sampleRoom (sampleState ''focus'' 100 True (Some 0) 2))
   \<and> \<not> isUserHost (sampleRoom (sampleState ''focus'' 100 True (Some 0) 2)) (userId (asBob 30000))
   \<and> dispatch (asBob 30000) (sampleStore (sampleState ''focus'' 100 True (Some 0) 2)) ''r1'' Reset
     = (sampleStore (sampleState ''focus'' 100 True (Some 0) 2),
        [ToSocket ''error'' ''Only host can control timer''])"
proof -
  let ?ts = "sampleState ''focus'' 100 True (Some 0) 2"
  have h1: "sampleStore ?ts ''r1'' = Some (sampleRoom ?ts)"
    by (simp add: sample_defs)
  have h2: "\<not> isUserHost (sampleRoom ?ts) (userId (asBob 30000))"
    by (simp add: sample_defs isUserHost_def)
  from h1 h2 non_host_rejected [of "sampleStore ?ts" "''r1''" "sampleRoom ?ts" "asBob 30000" Reset,
      OF h1 h2]
  show ?thesis by simp
qed

text \<open>
  C7. Change Mode by the host with a mode that is none of \<open>focus\<close>, \<open>shortBreak\<close> and
  \<open>longBreak\<close> leaves the database as it was, so every field of the timer state, and
  emits one event only: the error \<open>Invalid timer mode\<close>, to the requester.
\<close>

theorem invalid_mode_rejected:
  assumes "db roomId = Some r" and "isUserHost r (userId e)"
    and "newMode \<notin> {''focus'', ''shortBreak'', ''longBreak''}"
  shows "handleChangeTimerMode e db roomId newMode
         = (db, [ToSocket ''error'' ''Invalid timer mode''])"
  using assms by (simp add: handleChangeTimerMode_def validModes_def)

text \<open>The theorem at the mode \<open>nap\<close>, requested by the host.\<close>

theorem invalid_mode_rejected_witness:
  "sampleStore (sampleState ''focus'' 100 True (Some 0) 2) ''r1''
     = Some (sampleRoom (sampleState ''focus'' 100 True (Some 0) 2))
   \<and> isUserHost (sampleRoom (sampleState ''focus'' 100 True (Some 0) 2)) (userId (asAlice 30000))
   \<and> ''nap'' \<notin> {''focus'', ''shortBreak'', ''longBreak''}
   \<and> handleChangeTimerMode (asAlice 30000)
        (sampleStore (sampleState ''focus'' 100 True (Some 0) 2)) ''r1'' ''nap''
     = (sampleStore (sampleState ''focus'' 100 True (Some 0) 2),
        [ToSocket ''error'' ''Invalid timer mode''])"
proof -
  let ?ts = "sampleState ''focus'' 100 True (Some 0) 2"
  have h1: "sampleStore ?ts ''r1'' = Some (sampleRoom ?ts)"
    by (simp add: sample_defs)
  have h2: "isUserHost (sampleRoom ?ts) (userId (asAlice 30000))"
    by (simp add: sample_defs isUserHost_def)
  have h3: "''nap'' \<notin> {''focus'', ''shortBreak'', ''longBreak''}"
    by simp
  from h1 h2 h3 invalid_mode_rejected [of "sampleStore ?ts" "''r1''" "sampleRoom ?ts"
      "asAlice 30000" "''nap''", OF h1 h2 h3]
  show ?thesis by simp
qed

subsection \<open>Running and started\<close>

text \<open>
  Seen from the events: every timer state that one of the five operations broadcasts is
  the state it has stored for the room, and an operation that fails broadcasts nothing.
\<close>

lemma broadcast_state_is_stored:
  assumes "ToRoom target name p \<in> set (snd (dispatch e db roomId op))"
  shows "target = roomId
       \<and> stateAfter (dispatch e db roomId op) roomId = Some (payloadState p)"
  using assms
  by (cases op) (auto simp add: handler_defs split: option.splits if_splits prod.splits)

text \<open>
  C5. Every valid request of the host on an existing room, with a save that resolves,
  stores a new state for the room and broadcasts that state, and in it \<open>isRunning\<close> holds
  exactly when \<open>startedAt\<close> is not null: Start sets \<open>isRunning = true\<close> and
  \<open>startedAt = now\<close>; Pause, Reset, Change Mode and Complete set \<open>isRunning = false\<close>
  and \<open>startedAt = null\<close>, whatever the state was before.
\<close>

theorem running_iff_startedAt:
  assumes "db roomId = Some r" and "isUserHost r (userId e)" and "saveOk e"
    and "validRequest op"
  shows "\<exists>ts name p.
           dispatch e db roomId op
             = (db(roomId \<mapsto> r\<lparr>timerState := ts\<rparr>), [ToRoom roomId name p])
         \<and> payloadState p = ts
         \<and> (isRunning ts \<longleftrightarrow> startedAt ts \<noteq> None)
         \<and> (if op = Start
            then isRunning ts \<and> startedAt ts = Some (now e)
            else \<not> isRunning ts \<and> startedAt ts = None)"
  using assms
  by (cases op) (simp_all add: handler_defs split: prod.splits)

text \<open>
  The theorem at a Reset by the host on a running timer: the stored state is not running
  and has no start date.
\<close>

theorem running_iff_startedAt_witness:
  "sampleStore (sampleState ''focus'' 100 True (Some 0) 2) ''r1''
     = Some (sampleRoom (sampleState ''focus'' 100 True (Some 0) 2))
   \<and> isUserHost (sampleRoom (sampleState ''focus'' 100 True (Some 0) 2)) (userId (asAlice 30000))
   \<and> saveOk (asAlice 30000)
   \<and> validRequest Reset
   \<and> map_option isRunning
       (stateAfter (dispatch (asAlice 30000)
          (sampleStore (sampleState ''focus'' 100 True (Some 0) 2)) ''r1'' Reset) ''r1'')
     = Some False
   \<and> map_option startedAt
       (stateAfter (dispatch (asAlice 30000)
          (sampleStore (sampleState ''focus'' 100 True (Some 0) 2)) ''r1'' Reset) ''r1'')
     = Some None"
proof -
  let ?ts = "sampleState ''focus'' 100 True (Some 0) 2"
  have h1: "sampleStore ?ts ''r1'' = Some (sampleRoom ?ts)"
    by (simp add: sample_defs)
  have h2: "isUserHost (sampleRoom ?ts) (userId (asAlice 30000))"
    by (simp add: sample_defs isUserHost_def)
  have h3: "saveOk (asAlice 30000)"
    by (simp add: sample_defs)
  have h4: "validRequest Reset"
    by simp
  from running_iff_startedAt [of "sampleStore ?ts" "''r1''" "sampleRoom ?ts" "asAlice 30000" Reset,
      OF h1 h2 h3 h4]
  obtain ts name p where
    out: "dispatch (asAlice 30000) (sampleStore ?ts) ''r1'' Reset
            = ((sampleStore ?ts)(''r1'' \<mapsto> (sampleRoom ?ts)\<lparr>timerState := ts\<rparr>),
               [ToRoom ''r1'' name p])"
    and f: "\<not> isRunning ts" "startedAt ts = None"
    by auto
  have "stateAfter (dispatch (asAlice 30000) (sampleStore ?ts) ''r1'' Reset) ''r1'' = Some ts"
    unfolding out by (simp add: stateAfter_def)
  with f h1 h2 h3 h4 show ?thesis by simp
qed

end
